theory Spec2Isabelle
  imports
    Main
    "HOL-Library.AList"
    "HOL-Library.Sublist"
    "HOL-Library.Multiset"
    "HOL-Library.Char_ord"
    "HOL-Library.List_Lexorder"
begin

section \<open>Values and exceptions of the Python programs\<close>

text \<open>
  Both endpoints answer with JSON, which \<^verbatim>\<open>response.json()\<close> turns into Python
  values: \<^verbatim>\<open>None\<close>, booleans, integers, strings, lists and dictionaries. A dictionary
  is an association list read with \<^const>\<open>map_of\<close> and written with \<^const>\<open>AList.update\<close>
  (an existing key keeps its place, a new key goes to the end, as in Python).
  Numbers with a fraction or an exponent (Python floats) are outside this model.
\<close>

datatype json =
    JNull
  | JBool bool
  | JInt int
  | JStr string
  | JArr "json list"
  | JObj "(string \<times> json) list"

datatype error =
    RequestException
  | AttributeError
  | TypeError
  | FileNotFoundError
  | FileExistsError
  | NotADirectoryError
  | IsADirectoryError
  | OSError
  | HTTPError
  | JSONDecodeError
  | UnicodeEncodeError
  | ValueError

text \<open>Truth value of a Python object, as \<^verbatim>\<open>if x:\<close> and \<^verbatim>\<open>not x\<close> take it.\<close>

fun truthy :: "json \<Rightarrow> bool" where
  "truthy JNull = False"
| "truthy (JBool b) = b"
| "truthy (JInt i) = (i \<noteq> 0)"
| "truthy (JStr s) = (s \<noteq> [])"
| "truthy (JArr xs) = (xs \<noteq> [])"
| "truthy (JObj kvs) = (kvs \<noteq> [])"

text \<open>\<^verbatim>\<open>x.get(key, default)\<close>: only a dictionary has the method.\<close>

fun py_get :: "json \<Rightarrow> string \<Rightarrow> json \<Rightarrow> error + json" where
  "py_get (JObj kvs) key dflt = Inr (case map_of kvs key of None \<Rightarrow> dflt | Some v \<Rightarrow> v)"
| "py_get _ key dflt = Inl AttributeError"

text \<open>\<^verbatim>\<open>for x in xs\<close>: a list gives its elements, a string its characters (here one
  string for each byte; the programs only ever fail on the first), a dictionary its
  keys; nothing else can be iterated.\<close>

fun py_iter :: "json \<Rightarrow> error + json list" where
  "py_iter (JArr xs) = Inr xs"
| "py_iter (JStr s) = Inr (map (\<lambda>c. JStr [c]) s)"
| "py_iter (JObj kvs) = Inr (map (\<lambda>kv. JStr (fst kv)) kvs)"
| "py_iter _ = Inl TypeError"

text \<open>\<^verbatim>\<open>needle in x\<close> for a string \<^verbatim>\<open>needle\<close>: substring of a string, element of a
  list, key of a dictionary.\<close>

fun py_in :: "string \<Rightarrow> json \<Rightarrow> error + bool" where
  "py_in needle (JStr s) = Inr (sublist needle s)"
| "py_in needle (JArr xs) = Inr (JStr needle \<in> set xs)"
| "py_in needle (JObj kvs) = Inr (needle \<in> set (map fst kvs))"
| "py_in needle _ = Inl TypeError"

text \<open>\<^verbatim>\<open>x + n\<close> for an integer \<^verbatim>\<open>n\<close>: defined on integers and booleans.\<close>

fun py_add :: "json \<Rightarrow> int \<Rightarrow> error + json" where
  "py_add (JInt i) n = Inr (JInt (i + n))"
| "py_add (JBool b) n = Inr (JInt ((if b then 1 else 0) + n))"
| "py_add _ n = Inl TypeError"

text \<open>\<^verbatim>\<open>x[key] = v\<close> on a dictionary.\<close>

fun py_setitem :: "json \<Rightarrow> string \<Rightarrow> json \<Rightarrow> error + json" where
  "py_setitem (JObj kvs) key v = Inr (JObj (AList.update key v kvs))"
| "py_setitem _ key v = Inl TypeError"

section \<open>Strings, the library and the console\<close>

text \<open>
  A Python string is an Isabelle string: an ASCII character is itself, any other
  character is its bytes in UTF-8, and a lone surrogate, which \<^verbatim>\<open>json.loads\<close> lets
  through although UTF-8 has no code for it, is the three bytes from \<open>ED A0 80\<close> to
  \<open>ED BF BF\<close> that the same scheme gives it. Substrings, the replacement of one ASCII
  character by another and the order of strings are then those of Python.
\<close>

text \<open>\<^verbatim>\<open>str(n)\<close> of an integer, as the f-strings format it.\<close>

fun str_nat :: "nat \<Rightarrow> string" where
  "str_nat n =
     (if n < 10 then [''0123456789'' ! n]
      else str_nat (n div 10) @ [''0123456789'' ! (n mod 10)])"

declare str_nat.simps [simp del]

definition py_str :: "int \<Rightarrow> string" where
  "py_str i = (if i < 0 then CHR ''-'' # str_nat (nat (- i)) else str_nat (nat i))"

text \<open>\<^verbatim>\<open>s.replace(old, new)\<close> for one-character \<^verbatim>\<open>old\<close> and \<^verbatim>\<open>new\<close>.\<close>

definition py_replace :: "string \<Rightarrow> char \<Rightarrow> char \<Rightarrow> string" where
  "py_replace s old new = map (\<lambda>c. if c = old then new else c) s"

text \<open>
  Whether a string holds a lone surrogate. In UTF-8 the byte \<open>ED\<close> only ever starts a
  character, and the byte after it is below \<open>A0\<close> unless the character is a surrogate.
\<close>

fun lone_surrogate :: "string \<Rightarrow> bool" where
  "lone_surrogate (a # b # s) =
     ((a = CHR 0xED \<and> (160::nat) \<le> of_char b) \<or> lone_surrogate (b # s))"
| "lone_surrogate s = False"

text \<open>
  What the programs take from the Python library and from the process they run in:
  \<^item> \<^verbatim>\<open>str.lower\<close> and \<^verbatim>\<open>str.title\<close>, which follow the Unicode tables;
  \<^item> the standard output: \<^verbatim>\<open>print(text)\<close> returns when the stream takes the text and
    raises otherwise (an encoding that has no code for a character of the text, a
    closed stream);
  \<^item> \<^verbatim>\<open>str(e)\<close> of an exception;
  \<^item> the \<^verbatim>\<open>csv\<close> module writing one cell into a file opened with
    \<^verbatim>\<open>encoding='utf-8'\<close>: \<open>None\<close> when the cell can be written, or the exception
    raised (\<^verbatim>\<open>UnicodeEncodeError\<close> for a string with a lone surrogate, \<^verbatim>\<open>ValueError\<close>
    in an interpreter that refuses to print an integer of too many digits);
  \<^item> the clock: the text of the \<open>k\<close>-th \<^verbatim>\<open>datetime.now().strftime(...)\<close> of the run.
\<close>

record runtime =
  str_lower :: "string \<Rightarrow> string"
  str_title :: "string \<Rightarrow> string"
  stdout_accepts :: "string \<Rightarrow> bool"
  exception_text :: "error \<Rightarrow> string"
  csv_cell_error :: "json \<Rightarrow> error option"
  clock :: "nat \<Rightarrow> string"

definition py_print :: "runtime \<Rightarrow> string \<Rightarrow> error + unit" where
  "py_print rt text = (if stdout_accepts rt text then Inr () else Inl UnicodeEncodeError)"

text \<open>Several \<^verbatim>\<open>print\<close> statements in a row: the first that raises ends them.\<close>

fun print_lines :: "runtime \<Rightarrow> string list \<Rightarrow> error + unit" where
  "print_lines rt [] = Inr ()"
| "print_lines rt (text # rest) =
     (case py_print rt text of Inl e \<Rightarrow> Inl e | Inr u \<Rightarrow> print_lines rt rest)"

section \<open>The remote service\<close>

text \<open>
  The two endpoints. A request is named by what the URL is built from: the country and
  page number of a directory page, the user id of an external-badge list.
  \<^verbatim>\<open>requests.get\<close> raises (timeout, connection error) or returns a response with
  a status code and a body; \<^verbatim>\<open>raise_for_status\<close> raises on a status from 400 to 599
  and on no other; \<^verbatim>\<open>response.json()\<close> raises on a body that is not JSON.
  \<open>requests_get_json\<close> is the three calls in a row, lines 20 to 22 and 53 to 55.

  The functions below take the three calls together as one function \<open>http\<close> from
  requests to the parsed body or the exception raised. Within one run a request that
  is sent again gets the same answer; the pages of a country are requested once each.
  Every function that talks to the service also returns the requests it sent, in
  order.
\<close>

datatype request =
    DirectoryPage string nat
  | ExternalBadges json

record response =
  status_code :: nat
  json_body :: "json option"

type_synonym service = "request \<Rightarrow> error + response"

type_synonym http = "request \<Rightarrow> error + json"

definition raise_for_status :: "response \<Rightarrow> error + unit" where
  "raise_for_status r =
     (if 400 \<le> status_code r \<and> status_code r < 600 then Inl HTTPError else Inr ())"

definition response_json :: "response \<Rightarrow> error + json" where
  "response_json r = (case json_body r of None \<Rightarrow> Inl JSONDecodeError | Some data \<Rightarrow> Inr data)"

definition requests_get_json :: "service \<Rightarrow> http" where
  "requests_get_json service request =
     (case service request of
        Inl e \<Rightarrow> Inl e
      | Inr r \<Rightarrow>
          (case raise_for_status r of
             Inl e \<Rightarrow> Inl e
           | Inr u \<Rightarrow> response_json r))"

section \<open>fetch\_country.py: external badges of one user\<close>

text \<open>The test of line 32 on one entry of the external-badge list.\<close>

definition is_github_badge :: "json \<Rightarrow> error + bool" where
  "is_github_badge badge =
     (case py_get badge ''external_badge'' (JObj []) of
        Inl e \<Rightarrow> Inl e
      | Inr external_badge \<Rightarrow>
          (case py_get external_badge ''badge_name'' (JStr '''') of
             Inl e \<Rightarrow> Inl e
           | Inr badge_name \<Rightarrow>
               (case py_get external_badge ''issuer_name'' (JStr '''') of
                  Inl e \<Rightarrow> Inl e
                | Inr issuer_name \<Rightarrow>
                    if issuer_name = JStr ''Microsoft'' then py_in ''GitHub'' badge_name
                    else Inr False)))"

text \<open>The loop of lines 26 to 33, with the list \<^verbatim>\<open>github_badges\<close> as accumulator.\<close>

fun collect_github_badges :: "json list \<Rightarrow> json list \<Rightarrow> error + json list" where
  "collect_github_badges github_badges [] = Inr github_badges"
| "collect_github_badges github_badges (badge # rest) =
     (case is_github_badge badge of
        Inl e \<Rightarrow> Inl e
      | Inr True \<Rightarrow> collect_github_badges (github_badges @ [badge]) rest
      | Inr False \<Rightarrow> collect_github_badges github_badges rest)"

text \<open>Lines 22 to 35: what the \<^verbatim>\<open>try\<close> block computes from the parsed body.\<close>

definition count_github_badges :: "json \<Rightarrow> error + int" where
  "count_github_badges data =
     (case py_get data ''data'' (JArr []) of
        Inl e \<Rightarrow> Inl e
      | Inr badges \<Rightarrow>
          (case py_iter badges of
             Inl e \<Rightarrow> Inl e
           | Inr bs \<Rightarrow>
               (case collect_github_badges [] bs of
                  Inl e \<Rightarrow> Inl e
                | Inr github_badges \<Rightarrow> Inr (int (length github_badges)))))"

text \<open>The whole function: any exception of the \<^verbatim>\<open>try\<close> block becomes 0.\<close>

definition fetch_github_external_badges :: "http \<Rightarrow> json \<Rightarrow> int \<times> request list" where
  "fetch_github_external_badges http user_id =
     (case http (ExternalBadges user_id) of
        Inl e \<Rightarrow> 0
      | Inr data \<Rightarrow> (case count_github_badges data of Inl e \<Rightarrow> 0 | Inr n \<Rightarrow> n),
      [ExternalBadges user_id])"

section \<open>fetch\_country.py: one country\<close>

text \<open>
  Lines 63 to 66, the body of the loop over the users of a page. The record is mutated
  in place; here the updated record is returned. An exception leaves the loop and the
  \<^verbatim>\<open>try\<close> block.
\<close>

definition add_external_count :: "http \<Rightarrow> json \<Rightarrow> (error + json) \<times> request list" where
  "add_external_count http user =
     (case py_get user ''id'' JNull of
        Inl e \<Rightarrow> (Inl e, [])
      | Inr user_id \<Rightarrow>
          if truthy user_id then
            (case fetch_github_external_badges http user_id of
               (external_count, sent) \<Rightarrow>
                 (case py_get user ''badge_count'' (JInt 0) of
                    Inl e \<Rightarrow> (Inl e, sent)
                  | Inr badge_count \<Rightarrow>
                      (case py_add badge_count external_count of
                         Inl e \<Rightarrow> (Inl e, sent)
                       | Inr new_count \<Rightarrow> (py_setitem user ''badge_count'' new_count, sent))))
          else (Inr user, []))"

text \<open>The loop of line 62 over the users of one page, stopping at the first exception.\<close>

fun add_external_counts :: "http \<Rightarrow> json list \<Rightarrow> (error + json list) \<times> request list" where
  "add_external_counts http [] = (Inr [], [])"
| "add_external_counts http (user # rest) =
     (case add_external_count http user of
        (Inl e, sent) \<Rightarrow> (Inl e, sent)
      | (Inr user', sent) \<Rightarrow>
          (case add_external_counts http rest of
             (Inl e, sent') \<Rightarrow> (Inl e, sent @ sent')
           | (Inr rest', sent') \<Rightarrow> (Inr (user' # rest'), sent @ sent')))"

text \<open>
  Lines 50 to 66, the \<^verbatim>\<open>try\<close> block of one round of the loop up to the point where
  the page's users are known: \<open>Inl\<close> when it raised, \<open>Inr []\<close> when
  \<^verbatim>\<open>not users\<close> held, and otherwise the users of the page with their counts added.
\<close>

definition fetch_page :: "http \<Rightarrow> string \<Rightarrow> nat \<Rightarrow> (error + json list) \<times> request list" where
  "fetch_page http country page =
     (case http (DirectoryPage country page) of
        Inl e \<Rightarrow> (Inl e, [DirectoryPage country page])
      | Inr data \<Rightarrow>
          (case py_get data ''data'' (JArr []) of
             Inl e \<Rightarrow> (Inl e, [DirectoryPage country page])
           | Inr users \<Rightarrow>
               if \<not> truthy users then (Inr [], [DirectoryPage country page])
               else
                 (case py_iter users of
                    Inl e \<Rightarrow> (Inl e, [DirectoryPage country page])
                  | Inr us \<Rightarrow>
                      (case add_external_counts http us of
                         (r, sent) \<Rightarrow> (r, DirectoryPage country page # sent)))))"





section \<open>fetch\_country.py: the CSV file\<close>

text \<open>
  The file system: the directories that exist, the files that exist with their contents,
  and the paths that the system refuses for a reason this model does not look into
  (permissions, a name that is too long or cannot be encoded). Paths are compared as
  they are written; a path without a slash lies in the working directory, which exists.
  The content of a CSV file is the list of rows handed to \<^verbatim>\<open>writerow\<close>, each the list
  of its cells; quoting and line ends are left to the \<^verbatim>\<open>csv\<close> module.
\<close>

type_synonym csv_row = "json list"

record filesystem =
  dirs :: "string set"
  files :: "string \<Rightarrow> csv_row list option"
  denied :: "string set"

definition dirname :: "string \<Rightarrow> string" where
  "dirname path = rev (tl (dropWhile (\<lambda>c. c \<noteq> CHR ''/'') (rev path)))"

text \<open>The path itself and every directory above it that the path names.\<close>

definition ancestors :: "string \<Rightarrow> string list" where
  "ancestors path =
     filter (\<lambda>p. p \<noteq> [] \<and> (p = path \<or> path ! length p = CHR ''/'')) (prefixes path)"

text \<open>\<^verbatim>\<open>os.makedirs(name, exist_ok=True)\<close>.\<close>

definition os_makedirs :: "string \<Rightarrow> filesystem \<Rightarrow> error + filesystem" where
  "os_makedirs name fs =
     (if name = [] then Inl FileNotFoundError
      else if \<exists>p \<in> set (ancestors name). p \<in> denied fs then Inl OSError
      else if files fs name \<noteq> None then Inl FileExistsError
      else if \<exists>p \<in> set (ancestors name). files fs p \<noteq> None then Inl NotADirectoryError
      else Inr (fs\<lparr>dirs := dirs fs \<union> set (ancestors name)\<rparr>))"

text \<open>\<^verbatim>\<open>open(path, 'w')\<close>: the file is created, or emptied if it exists.\<close>

definition os_open_w :: "string \<Rightarrow> filesystem \<Rightarrow> error + filesystem" where
  "os_open_w path fs =
     (if path \<in> denied fs then Inl OSError
      else if dirname path \<noteq> [] \<and> files fs (dirname path) \<noteq> None then Inl NotADirectoryError
      else if dirname path \<noteq> [] \<and> dirname path \<notin> dirs fs then Inl FileNotFoundError
      else if path \<in> dirs fs then Inl IsADirectoryError
      else Inr (fs\<lparr>files := (files fs)(path \<mapsto> [])\<rparr>))"

text \<open>
  \<^verbatim>\<open>writer.writerow(row)\<close>: the cells are turned into text one after the other,
  and the first that raises ends the call with nothing of the row written. A disk
  that fills up or fails while the file is written is outside this model.
\<close>

fun first_cell_error :: "runtime \<Rightarrow> csv_row \<Rightarrow> error option" where
  "first_cell_error rt [] = None"
| "first_cell_error rt (cell # rest) =
     (case csv_cell_error rt cell of None \<Rightarrow> first_cell_error rt rest | Some e \<Rightarrow> Some e)"

definition writerow :: "runtime \<Rightarrow> string \<Rightarrow> csv_row \<Rightarrow> filesystem \<Rightarrow> error + filesystem" where
  "writerow rt path row fs =
     (case first_cell_error rt row of
        None \<Rightarrow>
          Inr (fs\<lparr>files := (files fs)(path \<mapsto>
                 (case files fs path of None \<Rightarrow> [] | Some rows \<Rightarrow> rows) @ [row])\<rparr>)
      | Some e \<Rightarrow> Inl e)"

text \<open>Lines 90 to 95: the row of one user.\<close>

definition user_row :: "json \<Rightarrow> error + csv_row" where
  "user_row user =
     (case py_get user ''first_name'' (JStr []) of
        Inl e \<Rightarrow> Inl e
      | Inr first_name \<Rightarrow>
          (case py_get user ''middle_name'' (JStr []) of
             Inl e \<Rightarrow> Inl e
           | Inr middle_name \<Rightarrow>
               (case py_get user ''last_name'' (JStr []) of
                  Inl e \<Rightarrow> Inl e
                | Inr last_name \<Rightarrow>
                    (case py_get user ''badge_count'' (JInt 0) of
                       Inl e \<Rightarrow> Inl e
                     | Inr badge_count \<Rightarrow>
                         Inr [first_name, middle_name, last_name, badge_count]))))"

text \<open>The loop of line 89; an exception leaves the rows written so far in the file.\<close>

fun write_users ::
  "runtime \<Rightarrow> string \<Rightarrow> json list \<Rightarrow> filesystem \<Rightarrow> (error + unit) \<times> filesystem"
where
  "write_users rt path [] fs = (Inr (), fs)"
| "write_users rt path (user # rest) fs =
     (case user_row user of
        Inl e \<Rightarrow> (Inl e, fs)
      | Inr row \<Rightarrow>
          (case writerow rt path row fs of
             Inl e \<Rightarrow> (Inl e, fs)
           | Inr fs' \<Rightarrow> write_users rt path rest fs'))"

definition csv_header :: csv_row where
  "csv_header = [JStr ''first_name'', JStr ''middle_name'', JStr ''last_name'', JStr ''badge_count'']"

text \<open>Lines 82 and 83, the name of the file.\<close>

definition output_path :: "runtime \<Rightarrow> string \<Rightarrow> string \<Rightarrow> string" where
  "output_path rt output_dir country =
     output_dir @ ''/github-certs-'' @ py_replace (str_lower rt country) CHR '' '' CHR ''-'' @ ''.csv''"

text \<open>
  Lines 78 to 98. The result is the returned path or the exception that escaped, and
  the file system as the call left it. The \<^verbatim>\<open>print\<close> of line 97 comes after the file
  is closed.
\<close>

definition save_to_csv ::
  "runtime \<Rightarrow> string \<Rightarrow> json list \<Rightarrow> string \<Rightarrow> filesystem \<Rightarrow> (error + string) \<times> filesystem"
where
  "save_to_csv rt country users output_dir fs =
     (case os_makedirs output_dir fs of
        Inl e \<Rightarrow> (Inl e, fs)
      | Inr fs1 \<Rightarrow>
          (let output_file = output_path rt output_dir country in
           case os_open_w output_file fs1 of
             Inl e \<Rightarrow> (Inl e, fs1)
           | Inr fs2 \<Rightarrow>
               (case writerow rt output_file csv_header fs2 of
                  Inl e \<Rightarrow> (Inl e, fs2)
                | Inr fs3 \<Rightarrow>
                    (case write_users rt output_file users fs3 of
                       (Inl e, fs4) \<Rightarrow> (Inl e, fs4)
                     | (Inr u, fs4) \<Rightarrow>
                         (case py_print rt (CHR 0x0A # ''Saved to '' @ output_file) of
                            Inl e \<Rightarrow> (Inl e, fs4)
                          | Inr u' \<Rightarrow> (Inr output_file, fs4))))))"

section \<open>fetch\_country.py: the program\<close>

text \<open>
  How a run ends: \<^verbatim>\<open>sys.exit(n)\<close>, or an exception that nothing caught, after which
  the interpreter prints the traceback and ends with status 1.
\<close>

datatype exit = Exit int | Uncaught error


text \<open>The line of \<^verbatim>\<open>"=" * 80\<close>, and the first three characters of the text of line 122 as
  the source file has them (U+00E2, U+0153, U+2026).\<close>

definition rule_line :: string where
  "rule_line = replicate 80 CHR ''=''"



section \<open>fetch\_data.py: all countries\<close>

text \<open>
  \<^verbatim>\<open>CONTINENT_MAP\<close> is imported from \<^verbatim>\<open>generate_rankings\<close>; it is a parameter here, a
  dictionary from country names to continents. \<^verbatim>\<open>sorted\<close> puts the strings in the
  order of their code points, which is the order of the list type on the UTF-8 bytes.
\<close>

type_synonym continent_map = "(string \<times> string) list"

definition get_all_countries :: "runtime \<Rightarrow> continent_map \<Rightarrow> string list" where
  "get_all_countries rt CONTINENT_MAP =
     sorted_list_of_set
       (foldl (\<lambda>countries country. insert (str_title rt country) countries) {}
          (map fst CONTINENT_MAP))"

text \<open>
  \<^verbatim>\<open>subprocess.run(args, timeout=t, ...)\<close>: the return code of the finished process,
  or the exception raised, \<^verbatim>\<open>TimeoutExpired\<close> or another one with its message.
\<close>

datatype run_error = TimeoutExpired | OtherException string

type_synonym subprocess_run = "string list \<Rightarrow> nat \<Rightarrow> run_error + int"

definition large_countries :: "string list" where
  "large_countries =
     [''Brazil'', ''India'', ''United States'', ''China'', ''Germany'',
      ''United Kingdom'', ''France'', ''Canada'', ''Japan'']"

text \<open>Line 30, the local variable \<^verbatim>\<open>timeout\<close>.\<close>

definition timeout :: "string \<Rightarrow> nat" where
  "timeout country = (if country \<in> set large_countries then 900 else 120)"

text \<open>\<^verbatim>\<open>fetch_country_data\<close> of fetch\_data.py, lines 25 to 47.\<close>

definition fetch_country_data_subprocess ::
  "subprocess_run \<Rightarrow> string \<Rightarrow> string \<times> string \<times> string option"
where
  "fetch_country_data_subprocess run country =
     (case run [''./cert-github.sh'', country] (timeout country) of
        Inr returncode \<Rightarrow>
          if returncode = 0 then (country, ''success'', None)
          else (country, ''failed'', Some (''Exit code: '' @ py_str returncode))
      | Inl TimeoutExpired \<Rightarrow>
          (country, ''failed'', Some (''Timeout ('' @ py_str (int (timeout country)) @ ''s)''))
      | Inl (OtherException msg) \<Rightarrow> (country, ''failed'', Some msg))"

text \<open>The characters outside ASCII that the texts of fetch\_data.py hold: U+1F4CB,
  U+23F0, U+2713, U+2717, U+2705 and U+274C.\<close>

definition clipboard_sign :: string where
  "clipboard_sign = [CHR 0xF0, CHR 0x9F, CHR 0x93, CHR 0x8B]"

definition clock_sign :: string where
  "clock_sign = [CHR 0xE2, CHR 0x8F, CHR 0xB0]"

definition check_sign :: string where
  "check_sign = [CHR 0xE2, CHR 0x9C, CHR 0x93]"

definition ballot_sign :: string where
  "ballot_sign = [CHR 0xE2, CHR 0x9C, CHR 0x97]"

definition done_sign :: string where
  "done_sign = [CHR 0xE2, CHR 0x9C, CHR 0x85]"

definition cross_sign :: string where
  "cross_sign = [CHR 0xE2, CHR 0x9D, CHR 0x8C]"

text \<open>
  The loop of lines 77 to 85 over the finished units, the \<open>i\<close>-th of
  \<open>total_countries\<close>: the number of successes and the list of failed countries. Each
  round prints a line, and a \<^verbatim>\<open>print\<close> that raises ends the loop and the program.
\<close>

fun tally ::
  "runtime \<Rightarrow> nat \<Rightarrow> nat \<Rightarrow> nat \<Rightarrow> string list \<Rightarrow> (string \<times> string \<times> string option) list \<Rightarrow>
   error + nat \<times> string list"
where
  "tally rt total_countries i success_count failed_countries [] =
     Inr (success_count, failed_countries)"
| "tally rt total_countries i success_count failed_countries ((country, status, err) # rest) =
     (if status = ''success'' then
        (case py_print rt
                (check_sign @ '' ['' @ py_str (int i) @ ''/'' @ py_str (int total_countries) @
                 ''] Success: '' @ country) of
           Inl e \<Rightarrow> Inl e
         | Inr u \<Rightarrow> tally rt total_countries (i + 1) (success_count + 1) failed_countries rest)
      else
        (case py_print rt
                (ballot_sign @ '' ['' @ py_str (int i) @ ''/'' @ py_str (int total_countries) @
                 ''] Failed: '' @ country @ '' ('' @
                 (case err of None \<Rightarrow> ''None'' | Some reason \<Rightarrow> reason) @ '')'') of
           Inl e \<Rightarrow> Inl e
         | Inr u \<Rightarrow>
             tally rt total_countries (i + 1) success_count (failed_countries @ [country]) rest))"

text \<open>Lines 71 to 74: one unit is submitted to the pool for every element of
  \<^verbatim>\<open>countries\<close>; the list holds the result of each.\<close>

definition submit_all ::
  "subprocess_run \<Rightarrow> string list \<Rightarrow> (string \<times> string \<times> string option) list"
where
  "submit_all run countries = map (fetch_country_data_subprocess run) countries"

text \<open>
  \<^verbatim>\<open>main\<close> of fetch\_data.py. \<^verbatim>\<open>as_completed\<close> hands the results over in the order
  in which the units finish, which is a parameter here. The result is the two
  counters and the exit status of line 102, or the exception that nothing caught.
\<close>

definition fetch_data_main ::
  "runtime \<Rightarrow> continent_map \<Rightarrow> subprocess_run \<Rightarrow>
   ((string \<times> string \<times> string option) list \<Rightarrow> (string \<times> string \<times> string option) list) \<Rightarrow>
   error + nat \<times> string list \<times> int"
where
  "fetch_data_main rt CONTINENT_MAP run as_completed =
     (case print_lines rt [rule_line, ''GitHub Certifications Data Fetcher'', rule_line, []] of
        Inl e \<Rightarrow> Inl e
      | Inr u \<Rightarrow>
          (let countries = get_all_countries rt CONTINENT_MAP;
               total_countries = length countries
           in case print_lines rt
                     [clipboard_sign @ '' Found '' @ py_str (int total_countries) @
                        '' countries to process'',
                      clock_sign @ '' Started at: '' @ clock rt 0, []] of
                Inl e \<Rightarrow> Inl e
              | Inr u \<Rightarrow>
                  (case tally rt total_countries 1 0 [] (as_completed (submit_all run countries)) of
                     Inl e \<Rightarrow> Inl e
                   | Inr (success_count, failed_countries) \<Rightarrow>
                       (case print_lines rt
                               ([[], rule_line,
                                 clock_sign @ '' Completed at: '' @ clock rt 1,
                                 done_sign @ '' Success: '' @ py_str (int success_count) @ ''/'' @
                                   py_str (int total_countries),
                                 cross_sign @ '' Failed: '' @
                                   py_str (int (length failed_countries)) @ ''/'' @
                                   py_str (int total_countries)] @
                                (if failed_countries \<noteq> [] then
                                   [[], ''Failed countries:''] @
                                   map (\<lambda>country. ''  - '' @ country) failed_countries
                                 else []) @
                                [rule_line]) of
                          Inl e \<Rightarrow> Inl e
                        | Inr u \<Rightarrow>
                            Inr (success_count, failed_countries,
                                 if length failed_countries = 0 then 0 else 1)))))"


section \<open>The data model of the specification\<close>







text \<open>
  The primary badge count of a user record: the number the directory gave, 0 when the
  field is absent. Python counts \<^verbatim>\<open>True\<close> and \<^verbatim>\<open>False\<close> as 1 and 0; a value of any other
  kind is not a count.
\<close>

definition primary_count :: "(string \<times> json) list \<Rightarrow> int option" where
  "primary_count user =
     (case map_of user ''badge_count'' of
        None \<Rightarrow> Some 0
      | Some (JInt i) \<Rightarrow> Some i
      | Some (JBool b) \<Rightarrow> Some (if b then 1 else 0)
      | Some _ \<Rightarrow> None)"







text \<open>The row of a user record: its three names and its badge count, an absent name
  as the empty string and an absent count as 0.\<close>

definition record_row :: "(string \<times> json) list \<Rightarrow> csv_row" where
  "record_row user =
     [case map_of user ''first_name'' of None \<Rightarrow> JStr [] | Some v \<Rightarrow> v,
      case map_of user ''middle_name'' of None \<Rightarrow> JStr [] | Some v \<Rightarrow> v,
      case map_of user ''last_name'' of None \<Rightarrow> JStr [] | Some v \<Rightarrow> v,
      case map_of user ''badge_count'' of None \<Rightarrow> JInt 0 | Some v \<Rightarrow> v]"

text \<open>
  A \<^verbatim>\<open>subprocess.run\<close> that never starts a process and raises an exception whose
  message is the command line and the deadline it was given.
\<close>

definition echo_run :: subprocess_run where
  "echo_run args t =
     Inl (OtherException (concat (map (\<lambda>a. a @ '' '') args) @ py_str (int t)))"

section \<open>Example inputs\<close>

text \<open>
  \<^verbatim>\<open>str.lower\<close> and \<^verbatim>\<open>str.title\<close> as they are on ASCII strings, which is all the
  examples give them: a letter that follows a letter is lowered by \<^verbatim>\<open>title\<close>, any
  other letter is raised.
\<close>

definition ascii_uppercase :: string where
  "ascii_uppercase = ''ABCDEFGHIJKLMNOPQRSTUVWXYZ''"

definition ascii_lowercase :: string where
  "ascii_lowercase = ''abcdefghijklmnopqrstuvwxyz''"

definition lower_char :: "char \<Rightarrow> char" where
  "lower_char c = (case map_of (zip ascii_uppercase ascii_lowercase) c of None \<Rightarrow> c | Some d \<Rightarrow> d)"

definition upper_char :: "char \<Rightarrow> char" where
  "upper_char c = (case map_of (zip ascii_lowercase ascii_uppercase) c of None \<Rightarrow> c | Some d \<Rightarrow> d)"

definition is_cased :: "char \<Rightarrow> bool" where
  "is_cased c = (c \<in> set ascii_uppercase \<or> c \<in> set ascii_lowercase)"

definition ascii_lower :: "string \<Rightarrow> string" where
  "ascii_lower s = map lower_char s"

fun title_from :: "bool \<Rightarrow> string \<Rightarrow> string" where
  "title_from previous_is_cased [] = []"
| "title_from previous_is_cased (c # cs) =
     (if previous_is_cased then lower_char c else upper_char c) # title_from (is_cased c) cs"

definition ascii_title :: "string \<Rightarrow> string" where
  "ascii_title s = title_from False s"

text \<open>Two runtimes for the examples: one whose standard output takes every text (UTF-8
  with an error handler that replaces what has no code), one whose standard output is
  in ASCII and takes a text when all its bytes are below 128.\<close>

definition accepts_all :: "string \<Rightarrow> bool" where
  "accepts_all text = True"

definition accepts_ascii :: "string \<Rightarrow> bool" where
  "accepts_ascii text = list_all (\<lambda>c. of_char c < (128::nat)) text"

text \<open>The cells that a file in UTF-8 cannot take: the strings with a lone
  surrogate.\<close>

definition example_cell_error :: "json \<Rightarrow> error option" where
  "example_cell_error cell =
     (case cell of
        JStr s \<Rightarrow> if lone_surrogate s then Some UnicodeEncodeError else None
      | _ \<Rightarrow> None)"

definition example_exception_text :: "error \<Rightarrow> string" where
  "example_exception_text e = ''request failed''"

definition example_clock :: "nat \<Rightarrow> string" where
  "example_clock k = ''2024-01-01 00:00:00''"

definition utf8_runtime :: runtime where
  "utf8_runtime =
     \<lparr>str_lower = ascii_lower, str_title = ascii_title, stdout_accepts = accepts_all,
      exception_text = example_exception_text, csv_cell_error = example_cell_error,
      clock = example_clock\<rparr>"

definition ascii_runtime :: runtime where
  "ascii_runtime =
     \<lparr>str_lower = ascii_lower, str_title = ascii_title, stdout_accepts = accepts_ascii,
      exception_text = example_exception_text, csv_cell_error = example_cell_error,
      clock = example_clock\<rparr>"

text \<open>Three external-badge lists: one with a single badge that counts, the same with
  an entry added whose badge name is null, and one with a single entry.\<close>

definition example_badges :: json where
  "example_badges =
     JObj [(''data'', JArr
       [JObj [(''external_badge'',
           JObj [(''badge_name'', JStr ''GitHub Foundations''), (''issuer_name'', JStr ''Microsoft'')])],
        JObj [(''external_badge'',
           JObj [(''badge_name'', JStr ''Azure Fundamentals''), (''issuer_name'', JStr ''Microsoft'')])],
        JObj [(''external_badge'',
           JObj [(''badge_name'', JStr ''GitHub Actions''), (''issuer_name'', JStr ''Acme'')])],
        JObj [(''id'', JInt 7)]])]"

definition example_badges_null :: json where
  "example_badges_null =
     JObj [(''data'', JArr
       [JObj [(''external_badge'',
           JObj [(''badge_name'', JStr ''GitHub Foundations''), (''issuer_name'', JStr ''Microsoft'')])],
        JObj [(''external_badge'',
           JObj [(''badge_name'', JNull), (''issuer_name'', JStr ''Microsoft'')])]])]"

text \<open>The second user of the page, a record without an id.\<close>

definition example_user :: "(string \<times> json) list" where
  "example_user = [(''first_name'', JStr ''Bo''), (''last_name'', JStr ''Li''), (''badge_count'', JInt 5)]"

definition example_page :: json where
  "example_page =
     JObj [(''data'', JArr
       [JObj [(''id'', JStr ''u1''), (''first_name'', JStr ''Ada''), (''badge_count'', JInt 2)],
        JObj example_user,
        JObj [(''id'', JStr ''u3''), (''first_name'', JStr ''Cy'')]])]"

text \<open>A page whose second record has an id and a null badge count.\<close>

definition example_page_null :: json where
  "example_page_null =
     JObj [(''data'', JArr
       [JObj [(''id'', JStr ''n0''), (''badge_count'', JInt 7)],
        JObj [(''id'', JStr ''n1''), (''badge_count'', JNull)]])]"

text \<open>
  A service. Testland has a first page of three users and an empty second page;
  Halfland has the same first page and a second page whose request fails; every
  page of Nullland is the page with the null badge count; every page of Everland is
  the page of three users. The external badges of the users \<open>u1\<close>, \<open>u2\<close> and
  \<open>u4\<close> to \<open>u7\<close> are answered: \<open>u1\<close> with the first list, \<open>u2\<close> with a body
  whose \<^verbatim>\<open>data\<close> is a number, \<open>u4\<close> with the list that has a null badge name,
  \<open>u5\<close> with status 300 and \<open>u6\<close> with status 404, both with the first list, and
  \<open>u7\<close> with a body that is not JSON. Every other request fails.
\<close>

definition example_service :: service where
  "example_service r =
     (case r of
        DirectoryPage country page \<Rightarrow>
          if country = ''Testland'' \<and> page = 1 then
            Inr \<lparr>status_code = 200, json_body = Some example_page\<rparr>
          else if country = ''Testland'' \<and> page = 2 then
            Inr \<lparr>status_code = 200, json_body = Some (JObj [(''data'', JArr [])])\<rparr>
          else if country = ''Halfland'' \<and> page = 1 then
            Inr \<lparr>status_code = 200, json_body = Some example_page\<rparr>
          else if country = ''Nullland'' then
            Inr \<lparr>status_code = 200, json_body = Some example_page_null\<rparr>
          else if country = ''Everland'' then
            Inr \<lparr>status_code = 200, json_body = Some example_page\<rparr>
          else Inl RequestException
      | ExternalBadges user_id \<Rightarrow>
          if user_id = JStr ''u1'' then
            Inr \<lparr>status_code = 200, json_body = Some example_badges\<rparr>
          else if user_id = JStr ''u2'' then
            Inr \<lparr>status_code = 200, json_body = Some (JObj [(''data'', JInt 5)])\<rparr>
          else if user_id = JStr ''u4'' then
            Inr \<lparr>status_code = 200, json_body = Some example_badges_null\<rparr>
          else if user_id = JStr ''u5'' then
            Inr \<lparr>status_code = 300, json_body = Some example_badges\<rparr>
          else if user_id = JStr ''u6'' then
            Inr \<lparr>status_code = 404, json_body = Some example_badges\<rparr>
          else if user_id = JStr ''u7'' then
            Inr \<lparr>status_code = 200, json_body = None\<rparr>
          else Inl RequestException)"

definition example_http :: http where
  "example_http = requests_get_json example_service"


text \<open>A user whose first name is a lone surrogate, U+D800.\<close>

definition example_user_surrogate :: "(string \<times> json) list" where
  "example_user_surrogate = [(''first_name'', JStr [CHR 0xED, CHR 0xA0, CHR 0x80])]"

text \<open>Four runs of \<^verbatim>\<open>cert-github.sh\<close>: Brazil succeeds, Chile runs out of time, Peru
  ends with status 2 and for Fiji the script cannot be started.\<close>

definition example_run :: subprocess_run where
  "example_run args t =
     (if args = [''./cert-github.sh'', ''Chile''] then Inl TimeoutExpired
      else if args = [''./cert-github.sh'', ''Peru''] then Inr 2
      else if args = [''./cert-github.sh'', ''Fiji''] then Inl (OtherException ''Permission denied'')
      else Inr 0)"

definition example_run_ok :: subprocess_run where
  "example_run_ok args t = Inr 0"


text \<open>A file system with nothing in it but the working directory.\<close>

definition fresh_fs :: filesystem where
  "fresh_fs = \<lparr>dirs = {}, files = (\<lambda>p. None), denied = {}\<rparr>"

section \<open>External badges of one user\<close>










section \<open>The pages of one country\<close>

lemma add_external_counts_length:
  "fst (add_external_counts http us) = Inr us' \<Longrightarrow> length us' = length us"
  by (induction us arbitrary: us') (auto split: prod.splits sum.splits)

lemma add_external_counts_nth:
  "fst (add_external_counts http us) = Inr us' \<Longrightarrow> i < length us \<Longrightarrow>
   fst (add_external_count http (us ! i)) = Inr (us' ! i)"
proof (induction us arbitrary: us' i)
  case Nil
  then show ?case by simp
next
  case (Cons u us)
  then show ?case
    by (cases i) (auto split: prod.splits sum.splits)
qed










lemma fetch_page_users:
  "http (DirectoryPage country page) = Inr (JObj body) \<Longrightarrow>
   map_of body ''data'' = Some (JArr users) \<Longrightarrow>
   fst (fetch_page http country page) = fst (add_external_counts http users)"
  by (auto simp: fetch_page_def split: sum.splits prod.splits)









lemma add_external_count_with_id:
  "map_of u ''id'' = Some user_id \<Longrightarrow> truthy user_id \<Longrightarrow>
   fst (add_external_count http (JObj u)) = Inr u' \<Longrightarrow>
   \<exists>p. primary_count u = Some p \<and>
       u' = JObj (AList.update ''badge_count''
              (JInt (p + fst (fetch_github_external_badges http user_id))) u)"
  by (auto simp: add_external_count_def primary_count_def
      split: sum.splits prod.splits option.splits json.splits if_splits)


lemma fetch_github_external_badges_failed:
  "http (ExternalBadges user_id) = Inl e \<Longrightarrow> fst (fetch_github_external_badges http user_id) = 0"
  by (simp add: fetch_github_external_badges_def)

lemma update_badge_count_get:
  "py_get (JObj (AList.update ''badge_count'' v user)) ''badge_count'' d = Inr v"
  by (simp add: update_conv')

text \<open>
  Claim C1. On a page whose \<^verbatim>\<open>try\<close> block ends without an exception, every record
  with an id that Python takes as true ends with a badge count that is its primary
  count (the count the directory gave, 0 when absent) plus the count that the
  external lookup for this id returned, the rest of the record being as it was; and
  this second count is 0 when the lookup fails.
\<close>

theorem badge_count_is_primary_plus_external:
  assumes page: "http (DirectoryPage country page) = Inr (JObj body)"
    and data: "map_of body ''data'' = Some (JArr users)"
    and ok: "fst (fetch_page http country page) = Inr users'"
    and i: "i < length users"
    and user: "users ! i = JObj user"
    and uid: "map_of user ''id'' = Some user_id"
    and t: "truthy user_id"
  shows "length users' = length users \<and>
    (\<exists>p. primary_count user = Some p \<and>
       users' ! i = JObj (AList.update ''badge_count''
         (JInt (p + fst (fetch_github_external_badges http user_id))) user) \<and>
       py_get (users' ! i) ''badge_count'' (JInt 0) =
         Inr (JInt (p + fst (fetch_github_external_badges http user_id)))) \<and>
    (\<forall>e. http (ExternalBadges user_id) = Inl e \<longrightarrow>
       fst (fetch_github_external_badges http user_id) = 0)"
proof -
  from fetch_page_users [of http country page body users, OF page data] ok
  have all: "fst (add_external_counts http users) = Inr users'" by simp
  from add_external_counts_nth [OF all i] user
  have one: "fst (add_external_count http (JObj user)) = Inr (users' ! i)" by simp
  from add_external_count_with_id [OF uid t one]
  obtain p where p: "primary_count user = Some p"
    "users' ! i = JObj (AList.update ''badge_count''
       (JInt (p + fst (fetch_github_external_badges http user_id))) user)" by blast
  from p(2) have "py_get (users' ! i) ''badge_count'' (JInt 0) =
      Inr (JInt (p + fst (fetch_github_external_badges http user_id)))"
    by (simp only: update_badge_count_get)
  with p add_external_counts_length [OF all] fetch_github_external_badges_failed [of http user_id]
  show ?thesis by blast
qed

theorem badge_count_is_primary_plus_external_witness:
  "example_http (DirectoryPage ''Testland'' 1) =
     Inr (JObj [(''data'', JArr
       [JObj [(''id'', JStr ''u1''), (''first_name'', JStr ''Ada''), (''badge_count'', JInt 2)],
        JObj example_user,
        JObj [(''id'', JStr ''u3''), (''first_name'', JStr ''Cy'')]])]) \<and>
   fst (fetch_page example_http ''Testland'' 1) =
     Inr [JObj [(''id'', JStr ''u1''), (''first_name'', JStr ''Ada''), (''badge_count'', JInt 3)],
          JObj example_user,
          JObj [(''id'', JStr ''u3''), (''first_name'', JStr ''Cy''), (''badge_count'', JInt 0)]] \<and>
   truthy (JStr ''u1'') \<and>
   primary_count [(''id'', JStr ''u1''), (''first_name'', JStr ''Ada''), (''badge_count'', JInt 2)] = Some 2 \<and>
   fst (fetch_github_external_badges example_http (JStr ''u1'')) = 1 \<and>
   py_get (JObj [(''id'', JStr ''u1''), (''first_name'', JStr ''Ada''), (''badge_count'', JInt 3)])
     ''badge_count'' (JInt 0) = Inr (JInt (2 + 1)) \<and>
   example_http (ExternalBadges (JStr ''u3'')) = Inl RequestException \<and>
   fst (fetch_github_external_badges example_http (JStr ''u3'')) = 0"
proof -
  let ?u1 = "[(''id'', JStr ''u1''), (''first_name'', JStr ''Ada''), (''badge_count'', JInt 2)]"
  let ?u3 = "[(''id'', JStr ''u3''), (''first_name'', JStr ''Cy'')]"
  let ?users = "[JObj ?u1, JObj example_user, JObj ?u3]"
  let ?users' = "[JObj [(''id'', JStr ''u1''), (''first_name'', JStr ''Ada''), (''badge_count'', JInt 3)],
          JObj example_user,
          JObj [(''id'', JStr ''u3''), (''first_name'', JStr ''Cy''), (''badge_count'', JInt 0)]]"
  have page: "example_http (DirectoryPage ''Testland'' 1) = Inr (JObj [(''data'', JArr ?users)])"
    by code_simp
  have data: "map_of [(''data'', JArr ?users)] ''data'' = Some (JArr ?users)"
    by simp
  have ok: "fst (fetch_page example_http ''Testland'' 1) = Inr ?users'"
    by code_simp
  have p1: "primary_count ?u1 = Some 2" by (simp add: primary_count_def)
  have f3: "example_http (ExternalBadges (JStr ''u3'')) = Inl RequestException"
    by code_simp
  have a: "(0::nat) < length ?users" "?users ! 0 = JObj ?u1"
    "map_of ?u1 ''id'' = Some (JStr ''u1'')" "truthy (JStr ''u1'')" by simp_all
  have b: "(2::nat) < length ?users" "?users ! 2 = JObj ?u3"
    "map_of ?u3 ''id'' = Some (JStr ''u3'')" "truthy (JStr ''u3'')" by simp_all
  from badge_count_is_primary_plus_external [OF page data ok a] p1
  have r1: "?users' ! 0 = JObj (AList.update ''badge_count''
         (JInt (2 + fst (fetch_github_external_badges example_http (JStr ''u1'')))) ?u1)"
       "py_get (?users' ! 0) ''badge_count'' (JInt 0) =
         Inr (JInt (2 + fst (fetch_github_external_badges example_http (JStr ''u1''))))"
    by auto
  from r1(1) have e1: "fst (fetch_github_external_badges example_http (JStr ''u1'')) = 1"
    by simp
  from r1(2) e1 have g1: "py_get (JObj [(''id'', JStr ''u1''), (''first_name'', JStr ''Ada''),
      (''badge_count'', JInt 3)]) ''badge_count'' (JInt 0) = Inr (JInt (2 + 1))"
    by simp
  from badge_count_is_primary_plus_external [OF page data ok b] f3
  have e3: "fst (fetch_github_external_badges example_http (JStr ''u3'')) = 0"
    by blast
  from page ok a(4) p1 e1 g1 f3 e3 show ?thesis by blast
qed



section \<open>The CSV file of a country\<close>

lemma slug_no_slash:
  "CHR ''/'' \<notin> set s \<Longrightarrow> CHR ''/'' \<notin> set (py_replace s CHR '' '' CHR ''-'')"
  by (auto simp: py_replace_def)

lemma dirname_append:
  assumes "CHR ''/'' \<notin> set name"
  shows "dirname (dir @ CHR ''/'' # name) = dir"
proof -
  have "dropWhile (\<lambda>c. c \<noteq> CHR ''/'') (rev name @ CHR ''/'' # rev dir) =
      dropWhile (\<lambda>c. c \<noteq> CHR ''/'') (CHR ''/'' # rev dir)"
    using assms by (intro dropWhile_append2) auto
  then show ?thesis by (simp add: dirname_def)
qed

lemma dirname_output_path:
  "CHR ''/'' \<notin> set (str_lower rt country) \<Longrightarrow>
   dirname (output_path rt output_dir country) = output_dir"
proof -
  assume "CHR ''/'' \<notin> set (str_lower rt country)"
  then have "CHR ''/'' \<notin> set (''github-certs-'' @
      py_replace (str_lower rt country) CHR '' '' CHR ''-'' @ ''.csv'')"
    using slug_no_slash [of "str_lower rt country"] by simp
  from dirname_append [OF this, of output_dir] show ?thesis
    by (simp add: output_path_def)
qed

lemma output_path_not_ancestor:
  "output_path rt output_dir country \<notin> set (ancestors output_dir)"
proof
  assume "output_path rt output_dir country \<in> set (ancestors output_dir)"
  then have "prefix (output_path rt output_dir country) output_dir"
    by (simp add: ancestors_def)
  then have "length (output_path rt output_dir country) \<le> length output_dir"
    by (rule prefix_length_le)
  then show False by (simp add: output_path_def)
qed

lemma os_makedirs_ok:
  assumes "os_makedirs name fs = Inr fs1"
  shows "fs1 = fs\<lparr>dirs := dirs fs \<union> set (ancestors name)\<rparr>"
    and "name \<noteq> []" and "name \<in> dirs fs1" and "files fs name = None"
  using assms by (auto simp: os_makedirs_def ancestors_def split: if_splits)

lemma first_cell_error_None:
  "first_cell_error rt row = None \<longleftrightarrow> (\<forall>cell \<in> set row. csv_cell_error rt cell = None)"
  by (induction row) (auto split: option.splits)

lemma writerow_ok:
  "first_cell_error rt row = None \<Longrightarrow>
   writerow rt path row (fs\<lparr>files := (files fs)(path \<mapsto> rows)\<rparr>) =
     Inr (fs\<lparr>files := (files fs)(path \<mapsto> rows @ [row])\<rparr>)"
  by (simp add: writerow_def)

lemma write_users_records:
  "\<forall>row \<in> set (map record_row records). first_cell_error rt row = None \<Longrightarrow>
   write_users rt path (map JObj records) (fs\<lparr>files := (files fs)(path \<mapsto> rows)\<rparr>) =
     (Inr (), fs\<lparr>files := (files fs)(path \<mapsto> rows @ map record_row records)\<rparr>)"
proof (induction records arbitrary: rows)
  case Nil
  show ?case by simp
next
  case (Cons r records)
  have row: "user_row (JObj r) = Inr (record_row r)"
    by (simp add: user_row_def record_row_def)
  from Cons.prems have c: "first_cell_error rt (record_row r) = None"
    and rest: "\<forall>row \<in> set (map record_row records). first_cell_error rt row = None"
    by simp_all
  have w: "writerow rt path (record_row r) (fs\<lparr>files := (files fs)(path \<mapsto> rows)\<rparr>) =
      Inr (fs\<lparr>files := (files fs)(path \<mapsto> rows @ [record_row r])\<rparr>)"
    by (rule writerow_ok [OF c])
  have "write_users rt path (map JObj (r # records)) (fs\<lparr>files := (files fs)(path \<mapsto> rows)\<rparr>) =
      write_users rt path (map JObj records)
        (fs\<lparr>files := (files fs)(path \<mapsto> rows @ [record_row r])\<rparr>)"
    by (simp only: list.map write_users.simps row w sum.case)
  also have "\<dots> = (Inr (), fs\<lparr>files := (files fs)(path \<mapsto>
      (rows @ [record_row r]) @ map record_row records)\<rparr>)"
    by (rule Cons.IH [OF rest])
  finally show ?case
    by (simp only: list.map append_assoc append_Cons append_Nil)
qed

lemma os_open_w_ok:
  assumes "path \<notin> denied fs" and "dirname path \<noteq> []" and "files fs (dirname path) = None"
    and "dirname path \<in> dirs fs" and "path \<notin> dirs fs"
  shows "os_open_w path fs = Inr (fs\<lparr>files := (files fs)(path \<mapsto> [])\<rparr>)"
  using assms by (simp add: os_open_w_def)

lemma save_to_csv_ok:
  assumes slash: "CHR ''/'' \<notin> set (str_lower rt country)"
    and mk: "os_makedirs output_dir fs = Inr fs1"
    and den: "output_path rt output_dir country \<notin> denied fs"
    and nodir: "output_path rt output_dir country \<notin> dirs fs"
    and cells: "\<forall>row \<in> set (csv_header # map record_row records).
      \<forall>cell \<in> set row. csv_cell_error rt cell = None"
  shows "save_to_csv rt country (map JObj records) output_dir fs =
     (if stdout_accepts rt (CHR 0x0A # ''Saved to '' @ output_path rt output_dir country)
      then Inr (output_path rt output_dir country) else Inl UnicodeEncodeError,
      fs1\<lparr>files := (files fs1)(output_path rt output_dir country \<mapsto>
         csv_header # map record_row records)\<rparr>)"
proof -
  let ?p = "output_path rt output_dir country"
  note m = os_makedirs_ok [OF mk]
  have d: "dirname ?p = output_dir" by (rule dirname_output_path [OF slash])
  have f1: "files fs1 = files fs" "denied fs1 = denied fs"
    "dirs fs1 = dirs fs \<union> set (ancestors output_dir)"
    by (simp_all add: m(1))
  have "?p \<notin> dirs fs1"
    using nodir output_path_not_ancestor [of rt output_dir country] by (simp add: f1)
  with den m d f1 have o: "os_open_w ?p fs1 = Inr (fs1\<lparr>files := (files fs1)(?p \<mapsto> [])\<rparr>)"
    by (intro os_open_w_ok) simp_all
  from cells have hc: "first_cell_error rt csv_header = None"
    and rc: "\<forall>row \<in> set (map record_row records). first_cell_error rt row = None"
    by (simp_all add: first_cell_error_None)
  have h: "writerow rt ?p csv_header (fs1\<lparr>files := (files fs1)(?p \<mapsto> [])\<rparr>) =
      Inr (fs1\<lparr>files := (files fs1)(?p \<mapsto> [csv_header])\<rparr>)"
    using writerow_ok [OF hc, of ?p fs1 "[]"] by (simp only: append_Nil)
  have w: "write_users rt ?p (map JObj records)
      (fs1\<lparr>files := (files fs1)(?p \<mapsto> [csv_header])\<rparr>) =
      (Inr (), fs1\<lparr>files := (files fs1)(?p \<mapsto> csv_header # map record_row records)\<rparr>)"
    using write_users_records [OF rc, of ?p fs1 "[csv_header]"]
    by (simp only: append_Cons append_Nil)
  show ?thesis
  proof (cases "stdout_accepts rt (CHR 0x0A # ''Saved to '' @ ?p)")
    case True
    then show ?thesis
      by (simp only: save_to_csv_def mk o h w sum.case Let_def prod.case py_print_def if_True)
  next
    case False
    then show ?thesis
      by (simp only: save_to_csv_def mk o h w sum.case Let_def prod.case py_print_def if_False)
  qed
qed

text \<open>
  Claim C4, as the code has it. For a country whose lower-case form has no slash and
  a list of user records, the empty list among them, whose cells and the header's the
  \<^verbatim>\<open>csv\<close> module can write, on a file system where the output directory is there or
  can be made and where the path of the file is neither refused nor a directory: the
  writer writes the file whose path is made of the output directory, a slash,
  \<open>github-certs-\<close>, the country in lower case with hyphens for spaces, and \<open>.csv\<close>,
  and no other; the file holds the header row followed by the rows of the users in the
  order of the list; and the writer returns this path if the standard output takes
  the line that names it, and raises after the file is written otherwise.
\<close>

theorem save_to_csv_one_file:
  assumes "CHR ''/'' \<notin> set (str_lower rt country)"
    and "os_makedirs output_dir fs = Inr fs1"
    and "output_path rt output_dir country \<notin> denied fs"
    and "output_path rt output_dir country \<notin> dirs fs"
    and "\<forall>row \<in> set (csv_header # map record_row records).
      \<forall>cell \<in> set row. csv_cell_error rt cell = None"
  shows "output_path rt output_dir country =
      output_dir @ ''/github-certs-'' @
        py_replace (str_lower rt country) CHR '' '' CHR ''-'' @ ''.csv'' \<and>
    fst (save_to_csv rt country (map JObj records) output_dir fs) =
      (if stdout_accepts rt (CHR 0x0A # ''Saved to '' @ output_path rt output_dir country)
       then Inr (output_path rt output_dir country) else Inl UnicodeEncodeError) \<and>
    files (snd (save_to_csv rt country (map JObj records) output_dir fs))
      (output_path rt output_dir country) = Some (csv_header # map record_row records) \<and>
    (\<forall>p. p \<noteq> output_path rt output_dir country \<longrightarrow>
       files (snd (save_to_csv rt country (map JObj records) output_dir fs)) p = files fs p) \<and>
    output_dir \<in> dirs (snd (save_to_csv rt country (map JObj records) output_dir fs))"
proof -
  note m = os_makedirs_ok [OF assms(2)]
  have f1: "files fs1 = files fs" by (simp add: m(1))
  have p: "output_path rt output_dir country =
      output_dir @ ''/github-certs-'' @
        py_replace (str_lower rt country) CHR '' '' CHR ''-'' @ ''.csv''"
    by (simp add: output_path_def)
  show ?thesis
    using m(3) f1 p by (simp add: save_to_csv_ok [OF assms])
qed

text \<open>
  Claim C4 as stated covers every country string and every list of users. For the
  country \<open>a/b\<close> on a file system with nothing in it, the path names a directory
  below the output directory that nothing has made: opening the file raises and no
  file is written. And for a list of two users of which the second has a lone
  surrogate as first name, the writer raises at the second row: the file is left with
  the header and the row of the first user.
\<close>

theorem save_to_csv_slash_counterexample:
  "fst (save_to_csv utf8_runtime ''a/b'' [] ''datasource'' fresh_fs) = Inl FileNotFoundError \<and>
   files (snd (save_to_csv utf8_runtime ''a/b'' [] ''datasource'' fresh_fs))
     (output_path utf8_runtime ''datasource'' ''a/b'') = None \<and>
   fst (save_to_csv utf8_runtime ''Testland'' [JObj example_user, JObj example_user_surrogate]
     ''datasource'' fresh_fs) = Inl UnicodeEncodeError \<and>
   files (snd (save_to_csv utf8_runtime ''Testland'' [JObj example_user, JObj example_user_surrogate]
     ''datasource'' fresh_fs)) ''datasource/github-certs-testland.csv'' =
     Some [csv_header, [JStr ''Bo'', JStr [], JStr ''Li'', JInt 5]]"
  by code_simp

theorem save_to_csv_one_file_witness:
  "CHR ''/'' \<notin> set (str_lower utf8_runtime ''United States'') \<and>
   os_makedirs ''datasource'' fresh_fs = Inr (fresh_fs\<lparr>dirs := {''datasource''}\<rparr>) \<and>
   output_path utf8_runtime ''datasource'' ''United States'' \<notin> denied fresh_fs \<and>
   output_path utf8_runtime ''datasource'' ''United States'' \<notin> dirs fresh_fs \<and>
   list_all (list_all (\<lambda>cell. csv_cell_error utf8_runtime cell = None))
     (csv_header # map record_row [example_user]) \<and>
   fst (save_to_csv utf8_runtime ''United States'' (map JObj []) ''datasource'' fresh_fs) =
     Inr ''datasource/github-certs-united-states.csv'' \<and>
   files (snd (save_to_csv utf8_runtime ''United States'' (map JObj []) ''datasource'' fresh_fs))
     ''datasource/github-certs-united-states.csv'' = Some [csv_header] \<and>
   files (snd (save_to_csv utf8_runtime ''United States'' (map JObj [example_user])
       ''datasource'' fresh_fs))
     ''datasource/github-certs-united-states.csv'' =
       Some [csv_header, [JStr ''Bo'', JStr [], JStr ''Li'', JInt 5]] \<and>
   fst (save_to_csv ascii_runtime ''United States'' (map JObj [example_user])
       ''datasource'' fresh_fs) = Inr ''datasource/github-certs-united-states.csv''"
proof -
  have a: "CHR ''/'' \<notin> set (str_lower utf8_runtime ''United States'')" by code_simp
  have a': "CHR ''/'' \<notin> set (str_lower ascii_runtime ''United States'')" by code_simp
  have b: "os_makedirs ''datasource'' fresh_fs = Inr (fresh_fs\<lparr>dirs := {''datasource''}\<rparr>)"
    by (simp add: os_makedirs_def fresh_fs_def ancestors_def)
  have c: "output_path utf8_runtime ''datasource'' ''United States'' \<notin> denied fresh_fs"
    "output_path ascii_runtime ''datasource'' ''United States'' \<notin> denied fresh_fs"
    by (simp_all add: fresh_fs_def)
  have d: "output_path utf8_runtime ''datasource'' ''United States'' \<notin> dirs fresh_fs"
    "output_path ascii_runtime ''datasource'' ''United States'' \<notin> dirs fresh_fs"
    by (simp_all add: fresh_fs_def)
  have e0: "\<forall>row \<in> set (csv_header # map record_row []).
      \<forall>cell \<in> set row. csv_cell_error utf8_runtime cell = None"
    by code_simp
  have e1: "\<forall>row \<in> set (csv_header # map record_row [example_user]).
      \<forall>cell \<in> set row. csv_cell_error utf8_runtime cell = None"
    by code_simp
  have e1': "\<forall>row \<in> set (csv_header # map record_row [example_user]).
      \<forall>cell \<in> set row. csv_cell_error ascii_runtime cell = None"
    by code_simp
  have l1: "list_all (list_all (\<lambda>cell. csv_cell_error utf8_runtime cell = None))
     (csv_header # map record_row [example_user])"
    by code_simp
  have p: "output_path utf8_runtime ''datasource'' ''United States'' =
      ''datasource/github-certs-united-states.csv''"
    "output_path ascii_runtime ''datasource'' ''United States'' =
      ''datasource/github-certs-united-states.csv''"
    by code_simp+
  have s: "stdout_accepts utf8_runtime
      (CHR 0x0A # ''Saved to '' @ ''datasource/github-certs-united-states.csv'')"
    "stdout_accepts ascii_runtime
      (CHR 0x0A # ''Saved to '' @ ''datasource/github-certs-united-states.csv'')"
    by code_simp+
  have r: "record_row example_user = [JStr ''Bo'', JStr [], JStr ''Li'', JInt 5]"
    by (simp add: record_row_def example_user_def)
  from save_to_csv_one_file [OF a b c(1) d(1) e0] s(1) p(1)
  have f0: "fst (save_to_csv utf8_runtime ''United States'' (map JObj []) ''datasource'' fresh_fs) =
     Inr ''datasource/github-certs-united-states.csv''"
    "files (snd (save_to_csv utf8_runtime ''United States'' (map JObj []) ''datasource'' fresh_fs))
     ''datasource/github-certs-united-states.csv'' = Some [csv_header]"
    by simp_all
  from save_to_csv_one_file [OF a b c(1) d(1) e1] p(1) r
  have f1: "files (snd (save_to_csv utf8_runtime ''United States'' (map JObj [example_user])
       ''datasource'' fresh_fs))
     ''datasource/github-certs-united-states.csv'' =
       Some [csv_header, [JStr ''Bo'', JStr [], JStr ''Li'', JInt 5]]"
    by simp
  from save_to_csv_one_file [OF a' b c(2) d(2) e1'] s(2) p(2)
  have f2: "fst (save_to_csv ascii_runtime ''United States'' (map JObj [example_user])
       ''datasource'' fresh_fs) = Inr ''datasource/github-certs-united-states.csv''"
    by simp
  from a b c(1) d(1) l1 f0 f1 f2 show ?thesis by blast
qed

section \<open>The unit of one country in fetch\_data.py\<close>

lemma py_str_900: "py_str 900 = ''900''" by code_simp
lemma py_str_120: "py_str 120 = ''120''" by code_simp

text \<open>
  Claim C7. The deadline of a unit is 900 when the country is one of the nine large
  countries, among them Brazil and India, and 120 otherwise; and it is this deadline
  that goes to \<^verbatim>\<open>subprocess.run\<close>, with the command line of the script and the
  country. A run that reports the command line and the deadline it was given shows
  both in the reason of the unit; the unit succeeds exactly when the run of this
  command line under this deadline ends with status 0; and the outcome of the unit
  depends on \<^verbatim>\<open>subprocess.run\<close> only through this one call.
\<close>

theorem timeout_large_countries:
  "timeout country =
     (if country \<in> {''Brazil'', ''India'', ''United States'', ''China'', ''Germany'',
                     ''United Kingdom'', ''France'', ''Canada'', ''Japan''} then 900 else 120) \<and>
   timeout ''Brazil'' = 900 \<and> timeout ''India'' = 900 \<and>
   fetch_country_data_subprocess echo_run country =
     (country, ''failed'',
      Some (''./cert-github.sh '' @ country @ '' '' @
        (if country \<in> {''Brazil'', ''India'', ''United States'', ''China'', ''Germany'',
                        ''United Kingdom'', ''France'', ''Canada'', ''Japan''}
         then ''900'' else ''120''))) \<and>
   (fetch_country_data_subprocess run country = (country, ''success'', None) \<longleftrightarrow>
      run [''./cert-github.sh'', country]
        (if country \<in> {''Brazil'', ''India'', ''United States'', ''China'', ''Germany'',
                        ''United Kingdom'', ''France'', ''Canada'', ''Japan''}
         then 900 else 120) = Inr 0) \<and>
   (\<forall>run'. run' [''./cert-github.sh'', country] (timeout country) =
             run [''./cert-github.sh'', country] (timeout country) \<longrightarrow>
      fetch_country_data_subprocess run' country = fetch_country_data_subprocess run country)"
proof -
  have lc: "country \<in> {''Brazil'', ''India'', ''United States'', ''China'', ''Germany'',
                     ''United Kingdom'', ''France'', ''Canada'', ''Japan''} \<longleftrightarrow>
      country \<in> set large_countries"
    by (simp add: large_countries_def)
  have t: "timeout country = (if country \<in> set large_countries then 900 else 120)"
    by (simp add: timeout_def)
  have b: "timeout ''Brazil'' = 900" "timeout ''India'' = 900"
    by (simp_all add: timeout_def large_countries_def)
  have e: "fetch_country_data_subprocess echo_run country =
     (country, ''failed'',
      Some (''./cert-github.sh '' @ country @ '' '' @
        (if country \<in> set large_countries then ''900'' else ''120'')))"
    by (simp add: fetch_country_data_subprocess_def echo_run_def timeout_def
        py_str_900 py_str_120)
  have s: "fetch_country_data_subprocess run country = (country, ''success'', None) \<longleftrightarrow>
      run [''./cert-github.sh'', country]
        (if country \<in> set large_countries then 900 else 120) = Inr 0"
    by (simp add: fetch_country_data_subprocess_def timeout_def
        split: sum.splits run_error.splits)
  have d: "\<forall>run'. run' [''./cert-github.sh'', country] (timeout country) =
             run [''./cert-github.sh'', country] (timeout country) \<longrightarrow>
      fetch_country_data_subprocess run' country = fetch_country_data_subprocess run country"
    by (simp add: fetch_country_data_subprocess_def)
  show ?thesis
    unfolding lc
    by (intro conjI) (rule t b e s d)+
qed

theorem timeout_large_countries_witness:
  "example_run_ok [''./cert-github.sh'', ''Brazil''] (timeout ''Brazil'') =
     example_run [''./cert-github.sh'', ''Brazil''] (timeout ''Brazil'') \<and>
   fetch_country_data_subprocess example_run_ok ''Brazil'' =
     fetch_country_data_subprocess example_run ''Brazil'' \<and>
   timeout ''Brazil'' = 900 \<and> timeout ''Chile'' = 120 \<and>
   fetch_country_data_subprocess echo_run ''Brazil'' =
     (''Brazil'', ''failed'', Some ''./cert-github.sh Brazil 900'') \<and>
   fetch_country_data_subprocess echo_run ''Chile'' =
     (''Chile'', ''failed'', Some ''./cert-github.sh Chile 120'')"
proof -
  have h: "example_run_ok [''./cert-github.sh'', ''Brazil''] (timeout ''Brazil'') =
     example_run [''./cert-github.sh'', ''Brazil''] (timeout ''Brazil'')"
    by (simp add: example_run_ok_def example_run_def)
  from timeout_large_countries [of "''Brazil''" example_run] h
  have r: "fetch_country_data_subprocess example_run_ok ''Brazil'' =
     fetch_country_data_subprocess example_run ''Brazil''" by blast
  from timeout_large_countries [of "''Brazil''" example_run]
  have b: "timeout ''Brazil'' = 900" by blast
  from timeout_large_countries [of "''Chile''" example_run]
  have c: "timeout ''Chile'' = 120" by simp
  from timeout_large_countries [of "''Brazil''" example_run]
  have eb: "fetch_country_data_subprocess echo_run ''Brazil'' =
     (''Brazil'', ''failed'', Some ''./cert-github.sh Brazil 900'')" by simp
  from timeout_large_countries [of "''Chile''" example_run]
  have ec: "fetch_country_data_subprocess echo_run ''Chile'' =
     (''Chile'', ''failed'', Some ''./cert-github.sh Chile 120'')" by simp
  from h r b c eb ec show ?thesis by blast
qed


text \<open>
  Claim C6, as the code has it. The unit always returns a triple of the country, a
  status and a reason: success without a reason, or failed with one. A unit that runs
  out of time is failed with the reason \<open>Timeout (900s)\<close> or \<open>Timeout (120s)\<close>, after
  its deadline; a unit that ends with a status other than 0 is failed with the reason
  \<open>Exit code:\<close> and the status; any other exception of the invocation is failed with
  the message of the exception. The result is a value in every case, so no exception
  leaves the unit.
\<close>

theorem unit_outcome_structured:
  "(\<exists>reason. fetch_country_data_subprocess run country = (country, ''success'', None) \<or>
      fetch_country_data_subprocess run country = (country, ''failed'', Some reason)) \<and>
   (run [''./cert-github.sh'', country] (timeout country) = Inl TimeoutExpired \<longrightarrow>
      fetch_country_data_subprocess run country =
        (country, ''failed'',
         Some (if country \<in> set large_countries then ''Timeout (900s)'' else ''Timeout (120s)''))) \<and>
   (\<forall>returncode. run [''./cert-github.sh'', country] (timeout country) = Inr returncode \<and>
        returncode \<noteq> 0 \<longrightarrow>
      fetch_country_data_subprocess run country =
        (country, ''failed'', Some (''Exit code: '' @ py_str returncode))) \<and>
   (\<forall>msg. run [''./cert-github.sh'', country] (timeout country) = Inl (OtherException msg) \<longrightarrow>
      fetch_country_data_subprocess run country = (country, ''failed'', Some msg)) \<and>
   (run [''./cert-github.sh'', country] (timeout country) = Inr 0 \<longrightarrow>
      fetch_country_data_subprocess run country = (country, ''success'', None))"
  by (auto simp: fetch_country_data_subprocess_def timeout_def py_str_900 py_str_120
      split: sum.splits run_error.splits)

text \<open>
  Claim C6 as stated names the reason \<open>timeout\<close> for a unit that exceeds its
  deadline. For Chile, whose run times out, the recorded reason is \<open>Timeout (120s)\<close>.
\<close>

theorem unit_timeout_reason_counterexample:
  "example_run [''./cert-github.sh'', ''Chile''] (timeout ''Chile'') = Inl TimeoutExpired \<and>
   fetch_country_data_subprocess example_run ''Chile'' = (''Chile'', ''failed'', Some ''Timeout (120s)'') \<and>
   fetch_country_data_subprocess example_run ''Chile'' \<noteq> (''Chile'', ''failed'', Some ''timeout'')"
  by (simp add: fetch_country_data_subprocess_def example_run_def timeout_def large_countries_def py_str_120)

theorem unit_outcome_structured_witness:
  "example_run [''./cert-github.sh'', ''Chile''] (timeout ''Chile'') = Inl TimeoutExpired \<and>
   fetch_country_data_subprocess example_run ''Chile'' = (''Chile'', ''failed'', Some ''Timeout (120s)'') \<and>
   example_run [''./cert-github.sh'', ''Peru''] (timeout ''Peru'') = Inr 2 \<and>
   fetch_country_data_subprocess example_run ''Peru'' = (''Peru'', ''failed'', Some ''Exit code: 2'') \<and>
   example_run [''./cert-github.sh'', ''Fiji''] (timeout ''Fiji'') = Inl (OtherException ''Permission denied'') \<and>
   fetch_country_data_subprocess example_run ''Fiji'' = (''Fiji'', ''failed'', Some ''Permission denied'') \<and>
   example_run [''./cert-github.sh'', ''Brazil''] (timeout ''Brazil'') = Inr 0 \<and>
   fetch_country_data_subprocess example_run ''Brazil'' = (''Brazil'', ''success'', None)"
proof -
  have hc: "example_run [''./cert-github.sh'', ''Chile''] (timeout ''Chile'') = Inl TimeoutExpired"
    by (simp add: example_run_def)
  have hp: "example_run [''./cert-github.sh'', ''Peru''] (timeout ''Peru'') = Inr 2"
    by (simp add: example_run_def)
  have hf: "example_run [''./cert-github.sh'', ''Fiji''] (timeout ''Fiji'') =
      Inl (OtherException ''Permission denied'')"
    by (simp add: example_run_def)
  have hb: "example_run [''./cert-github.sh'', ''Brazil''] (timeout ''Brazil'') = Inr 0"
    by (simp add: example_run_def)
  have small: "''Chile'' \<notin> set large_countries" by (simp add: large_countries_def)
  have two: "py_str 2 = ''2''" by code_simp
  from unit_outcome_structured [of example_run "''Chile''"] hc small
  have rc: "fetch_country_data_subprocess example_run ''Chile'' =
      (''Chile'', ''failed'', Some ''Timeout (120s)'')" by simp
  from unit_outcome_structured [of example_run "''Peru''"] hp two
  have rp: "fetch_country_data_subprocess example_run ''Peru'' =
      (''Peru'', ''failed'', Some ''Exit code: 2'')" by simp
  from unit_outcome_structured [of example_run "''Fiji''"] hf
  have rf: "fetch_country_data_subprocess example_run ''Fiji'' =
      (''Fiji'', ''failed'', Some ''Permission denied'')" by simp
  from unit_outcome_structured [of example_run "''Brazil''"] hb
  have rb: "fetch_country_data_subprocess example_run ''Brazil'' = (''Brazil'', ''success'', None)"
    by simp
  from hc rc hp rp hf rf hb rb show ?thesis by blast
qed

section \<open>The countries of a run\<close>







section \<open>The exit status of the two programs\<close>

lemma print_lines_accepted:
  "\<forall>text. stdout_accepts rt text \<Longrightarrow> print_lines rt xs = Inr ()"
  by (induction xs) (simp_all add: py_print_def)

lemma tally_filter:
  "\<forall>text. stdout_accepts rt text \<Longrightarrow>
   tally rt total_countries i success_count failed_countries rs =
     Inr (success_count + length (filter (\<lambda>r. fst (snd r) = ''success'') rs),
          failed_countries @ map fst (filter (\<lambda>r. fst (snd r) \<noteq> ''success'') rs))"
  by (induction rt total_countries i success_count failed_countries rs rule: tally.induct)
    (simp_all add: py_print_def)

lemma fetch_data_main_result:
  assumes "\<forall>text. stdout_accepts rt text"
  shows "fetch_data_main rt CONTINENT_MAP run as_completed =
     Inr (length (filter (\<lambda>r. fst (snd r) = ''success'')
            (as_completed (submit_all run (get_all_countries rt CONTINENT_MAP)))),
          map fst (filter (\<lambda>r. fst (snd r) \<noteq> ''success'')
            (as_completed (submit_all run (get_all_countries rt CONTINENT_MAP)))),
          if \<forall>r \<in> set (as_completed (submit_all run (get_all_countries rt CONTINENT_MAP))).
               fst (snd r) = ''success''
          then 0 else 1)"
  unfolding fetch_data_main_def Let_def print_lines_accepted [OF assms] tally_filter [OF assms]
  by (simp add: filter_empty_conv)















text \<open>Every unit is counted once, as a success or as a failure, whatever the order in
  which the units finish.\<close>

lemma fetch_data_main_counts_all:
  assumes acc: "\<forall>text. stdout_accepts rt text"
    and perm: "mset (as_completed (submit_all run (get_all_countries rt CONTINENT_MAP))) =
      mset (submit_all run (get_all_countries rt CONTINENT_MAP))"
  shows "\<exists>success_count failed_countries code.
      fetch_data_main rt CONTINENT_MAP run as_completed =
        Inr (success_count, failed_countries, code) \<and>
      success_count + length failed_countries = length (get_all_countries rt CONTINENT_MAP)"
proof -
  let ?futures = "submit_all run (get_all_countries rt CONTINENT_MAP)"
  from perm have "size (mset (as_completed ?futures)) = size (mset ?futures)" by simp
  then have l: "length (as_completed ?futures) = length (get_all_countries rt CONTINENT_MAP)"
    by (simp add: submit_all_def)
  have "length (filter (\<lambda>r. fst (snd r) = ''success'') (as_completed ?futures)) +
      length (map fst (filter (\<lambda>r. fst (snd r) \<noteq> ''success'') (as_completed ?futures))) =
      length (as_completed ?futures)"
    using sum_length_filter_compl [of "\<lambda>r. fst (snd r) = ''success''" "as_completed ?futures"]
    by simp
  with l fetch_data_main_result [OF acc, of CONTINENT_MAP run as_completed]
  show ?thesis by simp
qed

end
